theory Spec2Isabelle
  imports Complex_Main "HOL-Library.Multiset"
begin

section \<open>JavaScript numbers\<close>

text \<open>
  The program is TypeScript; every number in it is a JavaScript Number. The model keeps
  the special values of that type apart from the finite ones: \<open>Fin r\<close> is the finite value
  \<open>r\<close> (\<open>Fin 0\<close> is the positive zero), \<open>NegZero\<close> the negative zero, \<open>PInf\<close> and \<open>NInf\<close>
  the two infinities and \<open>NaN\<close> the not-a-number value. Arithmetic on finite values is
  exact: the rounding, overflow and underflow of IEEE-754 doubles are outside the model.
  The special cases (NaN, infinities, the sign of a zero, division by zero) follow
  ECMAScript's Number::add, Number::subtract, Number::multiply and Number::divide. The
  built-in functions that the program calls (\<open>parseInt\<close>, \<open>toFixed\<close>, the conversion of a
  number to a string, \<open>Array.prototype.sort\<close>, \<open>URLSearchParams\<close>) are modelled from
  their standards, each where the program first needs it.
\<close>

datatype jsnum = Fin real | NegZero | PInf | NInf | NaN

fun mag :: "jsnum \<Rightarrow> real" where
  "mag (Fin r) = r"
| "mag _ = 0"

fun level :: "jsnum \<Rightarrow> int" where
  "level PInf = 1"
| "level NInf = -1"
| "level _ = 0"

fun is_neg :: "jsnum \<Rightarrow> bool" where
  "is_neg (Fin r) = (r < 0)"
| "is_neg NegZero = True"
| "is_neg NInf = True"
| "is_neg _ = False"

fun finite_value :: "jsnum \<Rightarrow> real option" where
  "finite_value (Fin r) = Some r"
| "finite_value NegZero = Some 0"
| "finite_value _ = None"

definition zero_of :: "bool \<Rightarrow> jsnum" where
  "zero_of neg = (if neg then NegZero else Fin 0)"

definition inf_of :: "bool \<Rightarrow> jsnum" where
  "inf_of neg = (if neg then NInf else PInf)"

fun js_neg :: "jsnum \<Rightarrow> jsnum" where
  "js_neg (Fin r) = (if r = 0 then NegZero else Fin (- r))"
| "js_neg NegZero = Fin 0"
| "js_neg PInf = NInf"
| "js_neg NInf = PInf"
| "js_neg NaN = NaN"

definition js_add :: "jsnum \<Rightarrow> jsnum \<Rightarrow> jsnum" where
  "js_add x y =
     (if x = NaN \<or> y = NaN then NaN
      else if level x \<noteq> 0 \<or> level y \<noteq> 0 then
        (if level x + level y = 0 then NaN else if level x \<noteq> 0 then x else y)
      else if mag x + mag y = 0 then
        (if x = NegZero \<and> y = NegZero then NegZero else Fin 0)
      else Fin (mag x + mag y))"

definition js_sub :: "jsnum \<Rightarrow> jsnum \<Rightarrow> jsnum" where
  "js_sub x y = js_add x (js_neg y)"

definition js_mul :: "jsnum \<Rightarrow> jsnum \<Rightarrow> jsnum" where
  "js_mul x y =
     (if x = NaN \<or> y = NaN then NaN
      else if level x \<noteq> 0 \<or> level y \<noteq> 0 then
        (if (level x = 0 \<and> mag x = 0) \<or> (level y = 0 \<and> mag y = 0) then NaN
         else inf_of (is_neg x \<noteq> is_neg y))
      else if mag x * mag y = 0 then zero_of (is_neg x \<noteq> is_neg y)
      else Fin (mag x * mag y))"

definition js_div :: "jsnum \<Rightarrow> jsnum \<Rightarrow> jsnum" where
  "js_div x y =
     (if x = NaN \<or> y = NaN then NaN
      else if level x \<noteq> 0 then
        (if level y \<noteq> 0 then NaN else inf_of (is_neg x \<noteq> is_neg y))
      else if level y \<noteq> 0 then zero_of (is_neg x \<noteq> is_neg y)
      else if mag y = 0 then
        (if mag x = 0 then NaN else inf_of (is_neg x \<noteq> is_neg y))
      else if mag x = 0 then zero_of (is_neg x \<noteq> is_neg y)
      else Fin (mag x / mag y))"

text \<open>
  The comparisons \<open><\<close>, \<open>>=\<close> and \<open>===\<close>: each is false as soon as one side is NaN, and
  the two zeros are equal.
\<close>

definition js_lt :: "jsnum \<Rightarrow> jsnum \<Rightarrow> bool" where
  "js_lt x y \<longleftrightarrow>
     x \<noteq> NaN \<and> y \<noteq> NaN \<and> (level x < level y \<or> (level x = level y \<and> mag x < mag y))"

definition js_ge :: "jsnum \<Rightarrow> jsnum \<Rightarrow> bool" where
  "js_ge x y \<longleftrightarrow> x \<noteq> NaN \<and> y \<noteq> NaN \<and> \<not> js_lt x y"

definition js_strict_eq :: "jsnum \<Rightarrow> jsnum \<Rightarrow> bool" where
  "js_strict_eq x y \<longleftrightarrow> x \<noteq> NaN \<and> y \<noteq> NaN \<and> level x = level y \<and> mag x = mag y"

section \<open>Numbers as text\<close>

text \<open>
  Strings are lists of characters with codes below 256. \<open>dec n\<close> is the decimal notation
  of a natural number.
\<close>

definition digit_char :: "nat \<Rightarrow> char" where
  "digit_char d = ''0123456789'' ! (d mod 10)"

fun dec :: "nat \<Rightarrow> string" where
  "dec n = (if n < 10 then [digit_char n] else dec (n div 10) @ [digit_char (n mod 10)])"

declare dec.simps [simp del]

text \<open>
  Number::toString, as the template literal of \<open>getWeightText\<close> and the JSX text nodes
  apply it. The result is \<open>None\<close> where the model has no text to give: a value that is not
  an integer, or a magnitude from \<open>10^21\<close> on, which JavaScript prints in exponent notation
  from the digits of the double.
\<close>

definition number_to_string :: "jsnum \<Rightarrow> string option" where
  "number_to_string x =
     (case x of
        NaN \<Rightarrow> Some ''NaN''
      | PInf \<Rightarrow> Some ''Infinity''
      | NInf \<Rightarrow> Some ''-Infinity''
      | NegZero \<Rightarrow> Some ''0''
      | Fin r \<Rightarrow>
          if r = of_int \<lfloor>r\<rfloor> \<and> \<bar>r\<bar> < 10 ^ 21
          then Some ((if r < 0 then ''-'' else '''') @ dec (nat \<lfloor>\<bar>r\<bar>\<rfloor>))
          else None)"

text \<open>
  Number.prototype.toFixed with zero fraction digits: a value that is not finite prints
  as Number::toString prints it; otherwise the sign is split off and the magnitude is
  rounded to the nearest integer, the larger one when two are equally near. The result is
  \<open>None\<close> for a magnitude from \<open>10^21\<close> on (exponent notation, as above).
\<close>

definition toFixed0 :: "jsnum \<Rightarrow> string option" where
  "toFixed0 x =
     (case x of
        NaN \<Rightarrow> Some ''NaN''
      | PInf \<Rightarrow> Some ''Infinity''
      | NInf \<Rightarrow> Some ''-Infinity''
      | NegZero \<Rightarrow> Some ''0''
      | Fin r \<Rightarrow>
          if \<bar>r\<bar> < 10 ^ 21
          then Some ((if r < 0 then ''-'' else '''') @ dec (nat \<lfloor>\<bar>r\<bar> + 1 / 2\<rfloor>))
          else None)"

section \<open>parseInt\<close>

text \<open>
  \<open>parseInt(string)\<close> with no radix argument: leading white space is dropped, one sign is
  read, a prefix \<open>0x\<close> or \<open>0X\<close> selects radix 16 (radix 10 otherwise), and the longest run
  of digits of that radix is the value. With no digit at all the result is NaN; a value of
  zero takes the sign that was read.
\<close>

definition is_ws :: "char \<Rightarrow> bool" where
  "is_ws c \<longleftrightarrow> (of_char c :: nat) \<in> {9, 10, 11, 12, 13, 32, 160}"

definition digit_val :: "char \<Rightarrow> nat" where
  "digit_val c =
     (let k = (of_char c :: nat) in
      if 48 \<le> k \<and> k \<le> 57 then k - 48
      else if 97 \<le> k \<and> k \<le> 122 then k - 87
      else if 65 \<le> k \<and> k \<le> 90 then k - 55
      else 36)"

definition is_radix_digit :: "nat \<Rightarrow> char \<Rightarrow> bool" where
  "is_radix_digit R c \<longleftrightarrow> digit_val c < R"

fun strip_sign :: "string \<Rightarrow> bool \<times> string" where
  "strip_sign [] = (False, [])"
| "strip_sign (c # cs) =
     (if c = CHR ''-'' then (True, cs)
      else if c = CHR ''+'' then (False, cs)
      else (False, c # cs))"

fun strip_prefix :: "string \<Rightarrow> nat \<times> string" where
  "strip_prefix (a # b # cs) =
     (if a = CHR ''0'' \<and> (b = CHR ''x'' \<or> b = CHR ''X'') then (16, cs)
      else (10, a # b # cs))"
| "strip_prefix cs = (10, cs)"

definition parseInt :: "string \<Rightarrow> jsnum" where
  "parseInt inputString =
     (let (neg, S) = strip_sign (dropWhile is_ws inputString);
          (R, S') = strip_prefix S;
          Z = takeWhile (is_radix_digit R) S'
      in if Z = [] then NaN
         else let mathInt = foldl (\<lambda>a c. a * R + digit_val c) 0 Z
              in if mathInt = 0 then zero_of neg
                 else Fin (if neg then - real mathInt else real mathInt))"

section \<open>The weight label\<close>

text \<open>
  The label of a weight. The result is a text wherever \<open>number_to_string\<close> gives one for
  the parsed weight, so for every weight that parses to NaN or to an integer of magnitude
  below \<open>10^21\<close>.
\<close>

definition getWeightText :: "string \<Rightarrow> string option" where
  "getWeightText weight =
     (let num = parseInt weight in
      if js_strict_eq num (Fin 0) then Some ''Tiebreaker''
      else if js_strict_eq num (Fin 1) then Some ''1 point''
      else map_option (\<lambda>s. s @ '' points'') (number_to_string num))"

section \<open>The medal table\<close>

text \<open>
  The type that \<open>medalTableNOCSchema\<close> describes (\<open>z.infer\<close> of it), one record per
  national committee.
\<close>

record noc =
  n_NOCID :: jsnum
  n_NOCGeoID :: jsnum
  c_NOC :: string
  c_NOCShort :: string
  n_Gold :: jsnum
  n_Silver :: jsnum
  n_Bronze :: jsnum
  n_Total :: jsnum
  n_RankGold :: jsnum
  n_RankSortGold :: jsnum
  n_RankTotal :: jsnum
  n_RankSortTotal :: jsnum

text \<open>
  Modelled from the spec: the table \<open>population\<close> of \<open>~/data/population\<close> is not among
  the sources; the spec describes it as a static mapping from a country's short code to
  its population, a non-negative integer, in which a code may have no entry. It is a
  parameter of every function that reads it. \<open>population_operand\<close> is the entry as an
  operand of \<open>/\<close>: a missing entry is the value \<open>undefined\<close>, which the operator converts
  to NaN.
\<close>

type_synonym population = "string \<rightharpoonup> nat"

definition population_operand :: "population \<Rightarrow> string \<Rightarrow> jsnum" where
  "population_operand pop code = (case pop code of None \<Rightarrow> NaN | Some p \<Rightarrow> Fin (real p))"

section \<open>The ranking score\<close>

definition getIndex :: "population \<Rightarrow> noc \<Rightarrow> string \<Rightarrow> string \<Rightarrow> string \<Rightarrow> bool \<Rightarrow> jsnum" where
  "getIndex pop team goldWeight silverWeight bronzeWeight divideByPopulation =
     js_div
       (js_add
          (js_add
             (js_mul (n_Gold team) (js_add (parseInt goldWeight) (Fin (10 / 10 ^ 6))))
             (js_mul (n_Silver team) (js_add (parseInt silverWeight) (Fin (10 / 10 ^ 9)))))
          (js_mul (n_Bronze team) (js_add (parseInt bronzeWeight) (Fin (10 / 10 ^ 12)))))
       (if divideByPopulation then population_operand pop (c_NOCShort team) else Fin 1)"

section \<open>Large numbers\<close>

text \<open>
  The three tests are \<open><\<close> on numbers, false when the number is NaN; the result is a text
  wherever \<open>toFixed0\<close> gives one.
\<close>

definition formatBigNumber :: "jsnum \<Rightarrow> string option" where
  "formatBigNumber num =
     (if js_lt num (Fin (10 ^ 3)) then toFixed0 num
      else if js_lt num (Fin (10 ^ 6)) then
        map_option (\<lambda>s. s @ ''K'') (toFixed0 (js_div num (Fin (10 ^ 3))))
      else if js_lt num (Fin (10 ^ 9)) then
        map_option (\<lambda>s. s @ ''M'') (toFixed0 (js_div num (Fin (10 ^ 6))))
      else map_option (\<lambda>s. s @ ''B'') (toFixed0 (js_div num (Fin (10 ^ 9)))))"

section \<open>The page: signals, sorting, rows\<close>

definition defaultGoldWeight :: string where
  "defaultGoldWeight = ''3''"

definition defaultSilverWeight :: string where
  "defaultSilverWeight = ''2''"

definition defaultBronzeWeight :: string where
  "defaultBronzeWeight = ''1''"

text \<open>
  The four signals of the component (\<open>goldWeight\<close>, \<open>silverWeight\<close>, \<open>bronzeWeight\<close>,
  \<open>divideByPopulation\<close>), and the state that a rendering of the component works on: the
  signals and the array \<open>medals.value.MedalTableNOC\<close> of the loader.
\<close>

record config =
  goldWeight :: string
  silverWeight :: string
  bronzeWeight :: string
  divideByPopulation :: bool

record page_state =
  signals :: config
  MedalTableNOC :: "noc list"

text \<open>
  \<open>Array.prototype.sort\<close> with a comparator. ECMAScript reads a comparator result of NaN
  as \<open>+0\<close>, puts \<open>x\<close> after \<open>y\<close> when the result for \<open>(x, y)\<close> is positive, and keeps
  the order of elements that compare as equal; the model is the insertion sort with these
  three properties. (For a comparator that is not a consistent ordering ECMAScript leaves
  the order to the implementation.) The method sorts the array in place and returns it.
\<close>

definition sort_compare :: "('a \<Rightarrow> 'a \<Rightarrow> jsnum) \<Rightarrow> 'a \<Rightarrow> 'a \<Rightarrow> jsnum" where
  "sort_compare comparefn x y = (let v = comparefn x y in if v = NaN then Fin 0 else v)"

fun insert_sorted :: "('a \<Rightarrow> 'a \<Rightarrow> jsnum) \<Rightarrow> 'a \<Rightarrow> 'a list \<Rightarrow> 'a list" where
  "insert_sorted comparefn x [] = [x]"
| "insert_sorted comparefn x (y # ys) =
     (if js_lt (Fin 0) (sort_compare comparefn x y) then y # insert_sorted comparefn x ys
      else x # y # ys)"

definition array_sort :: "('a \<Rightarrow> 'a \<Rightarrow> jsnum) \<Rightarrow> 'a list \<Rightarrow> 'a list" where
  "array_sort comparefn xs = foldr (insert_sorted comparefn) xs []"

text \<open>
  The comparator that the component passes to \<open>sort\<close>: the score of \<open>b\<close> minus the score
  of \<open>a\<close>, both under the current values of the signals.
\<close>

definition comparator :: "population \<Rightarrow> config \<Rightarrow> noc \<Rightarrow> noc \<Rightarrow> jsnum" where
  "comparator pop c a b =
     js_sub
       (getIndex pop b (goldWeight c) (silverWeight c) (bronzeWeight c) (divideByPopulation c))
       (getIndex pop a (goldWeight c) (silverWeight c) (bronzeWeight c) (divideByPopulation c))"

text \<open>
  The score of a country under the signals: the value of \<open>getIndex\<close> that the comparator
  computes for it.
\<close>

definition score :: "population \<Rightarrow> config \<Rightarrow> noc \<Rightarrow> jsnum" where
  "score pop c team =
     getIndex pop team (goldWeight c) (silverWeight c) (bronzeWeight c) (divideByPopulation c)"

text \<open>
  The weighted total of a country, the sum that the last cell of its row computes (without
  the tie-break terms).
\<close>

definition weighted_total :: "config \<Rightarrow> noc \<Rightarrow> jsnum" where
  "weighted_total c team =
     js_add
       (js_add
          (js_mul (n_Gold team) (parseInt (goldWeight c)))
          (js_mul (n_Silver team) (parseInt (silverWeight c))))
       (js_mul (n_Bronze team) (parseInt (bronzeWeight c)))"

text \<open>
  The last cell of a row: the text after "1 in" when the division by population is on,
  the points otherwise.
\<close>

definition points_cell :: "population \<Rightarrow> config \<Rightarrow> noc \<Rightarrow> string option" where
  "points_cell pop c team =
     (if divideByPopulation c
      then formatBigNumber (js_div (population_operand pop (c_NOCShort team)) (weighted_total c team))
      else number_to_string (weighted_total c team))"

text \<open>
  Rendering sorts the array of the loader and maps the sorted array to the rows of the
  table: the rank \<open>i + 1\<close>, the country and the last cell. It returns the state it leaves
  and the rows.
\<close>

record row =
  rank :: nat
  row_team :: noc
  cell :: "string option"

definition render :: "population \<Rightarrow> page_state \<Rightarrow> page_state \<times> row list" where
  "render pop st =
     (let sorted = array_sort (comparator pop (signals st)) (MedalTableNOC st)
      in (st\<lparr>MedalTableNOC := sorted\<rparr>,
          map (\<lambda>(i, team). \<lparr>rank = i + 1, row_team = team, cell = points_cell pop (signals st) team\<rparr>)
            (enumerate 0 sorted)))"

section \<open>The query string\<close>

text \<open>
  \<open>URLSearchParams\<close> is a list of name-value pairs: \<open>get\<close> reads the first value of a
  name, \<open>has\<close> tells whether a name occurs, \<open>delete\<close> removes every pair of a name, and
  \<open>set\<close> overwrites the first pair of a name and removes the others, or appends a pair.
\<close>

type_synonym search_params = "(string \<times> string) list"

definition sp_get :: "search_params \<Rightarrow> string \<Rightarrow> string option" where
  "sp_get ps name = map_of ps name"

definition sp_has :: "search_params \<Rightarrow> string \<Rightarrow> bool" where
  "sp_has ps name \<longleftrightarrow> name \<in> set (map fst ps)"

definition sp_delete :: "search_params \<Rightarrow> string \<Rightarrow> search_params" where
  "sp_delete ps name = filter (\<lambda>kv. fst kv \<noteq> name) ps"

fun sp_set :: "search_params \<Rightarrow> string \<Rightarrow> string \<Rightarrow> search_params" where
  "sp_set [] name v = [(name, v)]"
| "sp_set (kv # ps) name v =
     (if fst kv = name then (name, v) # sp_delete ps name else kv # sp_set ps name v)"

text \<open>
  The initial values of the signals, as the calls of \<open>useSignal\<close> read them from
  \<open>loc.url.searchParams\<close>.
\<close>

definition init_signals :: "search_params \<Rightarrow> config" where
  "init_signals searchParams =
     \<lparr>goldWeight = (case sp_get searchParams ''gold'' of None \<Rightarrow> defaultGoldWeight | Some v \<Rightarrow> v),
      silverWeight = (case sp_get searchParams ''silver'' of None \<Rightarrow> defaultSilverWeight | Some v \<Rightarrow> v),
      bronzeWeight = (case sp_get searchParams ''bronze'' of None \<Rightarrow> defaultBronzeWeight | Some v \<Rightarrow> v),
      divideByPopulation = sp_has searchParams ''population''\<rparr>"

text \<open>
  The task of \<open>useVisibleTask$\<close>, run when a signal changes: from the query string of
  the current location it computes the query string of the address that
  \<open>history.replaceState\<close> installs. The query string is kept as the list of its
  parameters; its text form in the address is not modelled.
\<close>

definition visible_task :: "config \<Rightarrow> search_params \<Rightarrow> search_params" where
  "visible_task c searchParams =
     (let p1 = (if goldWeight c = defaultGoldWeight then sp_delete searchParams ''gold''
                else sp_set searchParams ''gold'' (goldWeight c));
          p2 = (if silverWeight c = defaultSilverWeight then sp_delete p1 ''silver''
                else sp_set p1 ''silver'' (silverWeight c));
          p3 = (if bronzeWeight c = defaultBronzeWeight then sp_delete p2 ''bronze''
                else sp_set p2 ''bronze'' (bronzeWeight c))
      in if divideByPopulation c then sp_set p3 ''population'' ''true''
         else sp_delete p3 ''population'')"

section \<open>The feed schema\<close>

text \<open>
  The loader \<open>useMedals\<close> hands the parsed JSON of the response to
  \<open>medalTableSchema.parse\<close>. A JavaScript value that JSON can produce is a \<open>jsval\<close>; a
  property that an object does not have reads as \<open>undefined\<close>, here \<open>None\<close>.

  The schemas are built with the library zod, which is not part of the program; its
  parsers are modelled from the library's documented behaviour. A schema is its parsing
  function: given the path to a value and the value, it returns the issues found (\<open>Inl\<close>,
  the \<open>ZodError\<close> that \<open>parse\<close> throws) or the parsed value (\<open>Inr\<close>). \<open>z.string()\<close> and
  \<open>z.number()\<close> accept a value of that type only, without conversion (and \<open>z.number()\<close>
  no NaN); \<open>nullable\<close> accepts \<open>null\<close> in addition; \<open>z.object\<close> accepts an object, parses
  the value of every key of its shape, gathers the issues of all of them and drops the
  keys that the shape does not name; \<open>z.array\<close> accepts an array and parses every
  element.
\<close>

datatype jsval = JNull | JBool bool | JNum jsnum | JStr string | JArr "jsval list"
  | JObj "(string \<times> jsval) list"

datatype seg = Key string | Idx nat

type_synonym issue = "seg list \<times> string"

type_synonym schema = "seg list \<Rightarrow> jsval option \<Rightarrow> issue list + jsval"

definition z_string :: schema where
  "z_string path v = (case v of Some (JStr s) \<Rightarrow> Inr (JStr s) | _ \<Rightarrow> Inl [(path, ''string'')])"

definition z_number :: schema where
  "z_number path v =
     (case v of
        Some (JNum n) \<Rightarrow> if n = NaN then Inl [(path, ''number'')] else Inr (JNum n)
      | _ \<Rightarrow> Inl [(path, ''number'')])"

definition z_nullable :: "schema \<Rightarrow> schema" where
  "z_nullable inner path v = (case v of Some JNull \<Rightarrow> Inr JNull | _ \<Rightarrow> inner path v)"

fun collect :: "(issue list + 'a) list \<Rightarrow> issue list + 'a list" where
  "collect [] = Inr []"
| "collect (r # rs) =
     (case r of
        Inl e \<Rightarrow> (case collect rs of Inl es \<Rightarrow> Inl (e @ es) | Inr _ \<Rightarrow> Inl e)
      | Inr x \<Rightarrow> (case collect rs of Inl es \<Rightarrow> Inl es | Inr xs \<Rightarrow> Inr (x # xs)))"

definition z_object :: "(string \<times> schema) list \<Rightarrow> schema" where
  "z_object shape path v =
     (case v of
        Some (JObj props) \<Rightarrow>
          (case collect (map (\<lambda>(k, s). s (path @ [Key k]) (map_of props k)) shape) of
             Inl es \<Rightarrow> Inl es
           | Inr vs \<Rightarrow> Inr (JObj (zip (map fst shape) vs)))
      | _ \<Rightarrow> Inl [(path, ''object'')])"

definition z_array :: "schema \<Rightarrow> schema" where
  "z_array element path v =
     (case v of
        Some (JArr xs) \<Rightarrow>
          (case collect (map (\<lambda>(i, x). element (path @ [Idx i]) (Some x)) (enumerate 0 xs)) of
             Inl es \<Rightarrow> Inl es
           | Inr vs \<Rightarrow> Inr (JArr vs))
      | _ \<Rightarrow> Inl [(path, ''array'')])"

definition z_parse :: "schema \<Rightarrow> jsval \<Rightarrow> issue list + jsval" where
  "z_parse s raw = s [] (Some raw)"

definition medalTableInfoShape :: "(string \<times> schema) list" where
  "medalTableInfoShape =
     [(''c_AsOfDate'', z_string),
      (''n_EventsTotal'', z_number),
      (''n_EventsFinished'', z_number),
      (''n_EventsScheduled'', z_number),
      (''n_MedalsGold'', z_number),
      (''n_MedalsSilver'', z_number),
      (''n_MedalsBronze'', z_number),
      (''n_MedalsTotal'', z_number),
      (''n_SportID'', z_number),
      (''c_Sport'', z_nullable z_string),
      (''c_SportShort'', z_nullable z_string)]"

definition medalTableInfoSchema :: schema where
  "medalTableInfoSchema = z_object medalTableInfoShape"

definition medalTableNOCShape :: "(string \<times> schema) list" where
  "medalTableNOCShape =
     [(''n_NOCID'', z_number),
      (''n_NOCGeoID'', z_number),
      (''c_NOC'', z_string),
      (''c_NOCShort'', z_string),
      (''n_Gold'', z_number),
      (''n_Silver'', z_number),
      (''n_Bronze'', z_number),
      (''n_Total'', z_number),
      (''n_RankGold'', z_number),
      (''n_RankSortGold'', z_number),
      (''n_RankTotal'', z_number),
      (''n_RankSortTotal'', z_number)]"

definition medalTableNOCSchema :: schema where
  "medalTableNOCSchema = z_object medalTableNOCShape"

definition medalTableSchema :: schema where
  "medalTableSchema =
     z_object
       [(''MedalTableInfo'', medalTableInfoSchema),
        (''MedalTableNOC'', z_array medalTableNOCSchema)]"

definition useMedals :: "jsval \<Rightarrow> issue list + jsval" where
  "useMedals json = z_parse medalTableSchema json"

section \<open>The specification's words\<close>

text \<open>
  The definitions of this section are written from the specification, to be compared
  with the program. A weight string starts with an integer when, after white space and a
  sign, a decimal digit follows.
\<close>

definition starts_with_integer :: "string \<Rightarrow> bool" where
  "starts_with_integer w =
     (case snd (strip_sign (dropWhile is_ws w)) of [] \<Rightarrow> False | c # _ \<Rightarrow> is_radix_digit 10 c)"

text \<open>Rounding to the nearest integer, a half away from zero.\<close>

definition round_half_away :: "real \<Rightarrow> int" where
  "round_half_away x = (if 0 \<le> x then \<lfloor>x + 1 / 2\<rfloor> else - \<lfloor>- x + 1 / 2\<rfloor>)"

text \<open>The score formula of the specification, on real numbers.\<close>

definition spec_score :: "real \<Rightarrow> real \<Rightarrow> real \<Rightarrow> int \<Rightarrow> int \<Rightarrow> int \<Rightarrow> real \<Rightarrow> real" where
  "spec_score gold silver bronze gw sw bw divisor =
     (gold * (of_int gw + 1 / 10 ^ 5) + silver * (of_int sw + 1 / 10 ^ 8)
        + bronze * (of_int bw + 1 / 10 ^ 11)) / divisor"

section \<open>Example inputs\<close>

text \<open>
  The two countries of the specification's scenario (A with one gold medal, B with three
  silver and three bronze medals), a country without medals, and a population table that
  has an entry for \<open>AAA\<close> only.
\<close>

definition team_A :: noc where
  "team_A = \<lparr>n_NOCID = Fin 1, n_NOCGeoID = Fin 101, c_NOC = ''Aland'', c_NOCShort = ''AAA'',
     n_Gold = Fin 1, n_Silver = Fin 0, n_Bronze = Fin 0, n_Total = Fin 1,
     n_RankGold = Fin 1, n_RankSortGold = Fin 1, n_RankTotal = Fin 2, n_RankSortTotal = Fin 2\<rparr>"

definition team_B :: noc where
  "team_B = \<lparr>n_NOCID = Fin 2, n_NOCGeoID = Fin 102, c_NOC = ''Bland'', c_NOCShort = ''BBB'',
     n_Gold = Fin 0, n_Silver = Fin 3, n_Bronze = Fin 3, n_Total = Fin 6,
     n_RankGold = Fin 2, n_RankSortGold = Fin 2, n_RankTotal = Fin 1, n_RankSortTotal = Fin 1\<rparr>"

definition team_Z :: noc where
  "team_Z = \<lparr>n_NOCID = Fin 3, n_NOCGeoID = Fin 103, c_NOC = ''Zland'', c_NOCShort = ''AAA'',
     n_Gold = Fin 0, n_Silver = Fin 0, n_Bronze = Fin 0, n_Total = Fin 0,
     n_RankGold = Fin 3, n_RankSortGold = Fin 3, n_RankTotal = Fin 3, n_RankSortTotal = Fin 3\<rparr>"

definition population_A :: population where
  "population_A = [''AAA'' \<mapsto> 1000]"

definition default_config :: config where
  "default_config = init_signals []"

definition info_raw :: jsval where
  "info_raw = JObj [(''c_AsOfDate'', JStr ''2024-08-01''), (''n_EventsTotal'', JNum (Fin 329)),
     (''n_EventsFinished'', JNum (Fin 100)), (''n_EventsScheduled'', JNum (Fin 229)),
     (''n_MedalsGold'', JNum (Fin 100)), (''n_MedalsSilver'', JNum (Fin 100)),
     (''n_MedalsBronze'', JNum (Fin 110)), (''n_MedalsTotal'', JNum (Fin 310)),
     (''n_SportID'', JNum (Fin 0)), (''c_Sport'', JNull), (''c_SportShort'', JNull)]"

definition noc_props :: "jsval \<Rightarrow> (string \<times> jsval) list" where
  "noc_props gold = [(''n_NOCID'', JNum (Fin 1)), (''n_NOCGeoID'', JNum (Fin 101)),
     (''c_NOC'', JStr ''Aland''), (''c_NOCShort'', JStr ''AAA''),
     (''n_Gold'', gold), (''n_Silver'', JNum (Fin 0)), (''n_Bronze'', JNum (Fin 0)),
     (''n_Total'', JNum (Fin 1)), (''n_RankGold'', JNum (Fin 1)),
     (''n_RankSortGold'', JNum (Fin 1)), (''n_RankTotal'', JNum (Fin 2)),
     (''n_RankSortTotal'', JNum (Fin 2))]"

section \<open>Properties\<close>

subsection \<open>Arithmetic and text\<close>

lemma finite_value_add:
  "finite_value x = Some a \<Longrightarrow> finite_value y = Some b \<Longrightarrow> finite_value (js_add x y) = Some (a + b)"
  by (cases x; cases y) (auto simp: js_add_def)

lemma finite_value_mul:
  "finite_value x = Some a \<Longrightarrow> finite_value y = Some b \<Longrightarrow> finite_value (js_mul x y) = Some (a * b)"
  by (cases x; cases y) (auto simp: js_mul_def zero_of_def)

lemma finite_value_div:
  "finite_value x = Some a \<Longrightarrow> finite_value y = Some b \<Longrightarrow> b \<noteq> 0 \<Longrightarrow>
   finite_value (js_div x y) = Some (a / b)"
  by (cases x; cases y) (auto simp: js_div_def zero_of_def)

lemma strip_prefix_nondigit:
  "\<not> is_radix_digit 10 c \<Longrightarrow> strip_prefix (c # cs) = (10, c # cs)"
  by (cases cs) (auto simp: is_radix_digit_def digit_val_def)

lemma parseInt_no_integer: "\<not> starts_with_integer w \<Longrightarrow> parseInt w = NaN"
proof -
  assume h: "\<not> starts_with_integer w"
  obtain neg S where s: "strip_sign (dropWhile is_ws w) = (neg, S)"
    by (cases "strip_sign (dropWhile is_ws w)")
  show ?thesis
  proof (cases S)
    case Nil
    with s show ?thesis by (simp add: parseInt_def)
  next
    case (Cons c cs)
    with h s have "\<not> is_radix_digit 10 c"
      by (simp add: starts_with_integer_def)
    with s Cons show ?thesis
      by (simp add: parseInt_def strip_prefix_nondigit)
  qed
qed

lemma getWeightText_NaN: "parseInt w = NaN \<Longrightarrow> getWeightText w = Some ''NaN points''"
  by (simp add: getWeightText_def js_strict_eq_def number_to_string_def)

text \<open>
  Claim C10. For every weight string that does not start with an integer (after white
  space and a sign no decimal digit follows; the empty string and \<open>abc\<close> are such strings),
  \<open>parseInt\<close> yields NaN and the weight label is the text \<open>NaN points\<close>: NaN is neither
  \<open>=== 0\<close> nor \<open>=== 1\<close>, so neither \<open>Tiebreaker\<close> nor \<open>1 point\<close> is returned, and no
  default label exists.
\<close>

theorem getWeightText_unparsable:
  "\<not> starts_with_integer w \<Longrightarrow> parseInt w = NaN \<and> getWeightText w = Some ''NaN points''"
  by (simp add: parseInt_no_integer getWeightText_NaN)

theorem getWeightText_unparsable_witness:
  "\<not> starts_with_integer '''' \<and> getWeightText '''' = Some ''NaN points'' \<and>
   \<not> starts_with_integer ''abc'' \<and> getWeightText ''abc'' = Some ''NaN points'' \<and>
   \<not> starts_with_integer '' -x1'' \<and> getWeightText '' -x1'' = Some ''NaN points''"
  using getWeightText_unparsable [of "''''"] getWeightText_unparsable [of "''abc''"]
    getWeightText_unparsable [of "'' -x1''"]
  by (simp add: starts_with_integer_def is_ws_def is_radix_digit_def digit_val_def)

lemma toFixed0_Fin:
  "\<bar>r\<bar> < 10 ^ 21 \<Longrightarrow>
   toFixed0 (Fin r) = Some ((if r < 0 then ''-'' else '''') @ dec (nat \<bar>round_half_away r\<bar>))"
  unfolding toFixed0_def round_half_away_def
  by (auto simp: abs_if)


lemma formatBigNumber_units:
  "x < 10 ^ 3 \<Longrightarrow> \<bar>x\<bar> < 10 ^ 21 \<Longrightarrow>
   formatBigNumber (Fin x) = Some ((if x < 0 then ''-'' else '''') @ dec (nat \<bar>round_half_away x\<bar>))"
  by (simp add: formatBigNumber_def js_lt_def toFixed0_Fin)

lemma js_div_Fin: "x \<noteq> 0 \<Longrightarrow> y \<noteq> 0 \<Longrightarrow> js_div (Fin x) (Fin y) = Fin (x / y)"
  by (simp add: js_div_def)

lemma formatBigNumber_K:
  assumes "10 ^ 3 \<le> x" "x < 10 ^ 6"
  shows "formatBigNumber (Fin x) = Some (dec (nat (round_half_away (x / 10 ^ 3))) @ ''K'')"
proof -
  have a: "\<bar>x / 10 ^ 3\<bar> < 10 ^ 21" using assms by (simp add: abs_if)
  have r: "0 \<le> round_half_away (x / 10 ^ 3)" using assms by (simp add: round_half_away_def)
  have "js_div (Fin x) (Fin (10 ^ 3)) = Fin (x / 10 ^ 3)"
    using assms by (intro js_div_Fin) auto
  with assms toFixed0_Fin [OF a] r show ?thesis
    by (simp add: formatBigNumber_def js_lt_def)
qed

lemma formatBigNumber_M:
  assumes "10 ^ 6 \<le> x" "x < 10 ^ 9"
  shows "formatBigNumber (Fin x) = Some (dec (nat (round_half_away (x / 10 ^ 6))) @ ''M'')"
proof -
  have a: "\<bar>x / 10 ^ 6\<bar> < 10 ^ 21" using assms by (simp add: abs_if)
  have r: "0 \<le> round_half_away (x / 10 ^ 6)" using assms by (simp add: round_half_away_def)
  have "js_div (Fin x) (Fin (10 ^ 6)) = Fin (x / 10 ^ 6)"
    using assms by (intro js_div_Fin) auto
  with assms toFixed0_Fin [OF a] r show ?thesis
    by (simp add: formatBigNumber_def js_lt_def)
qed

lemma formatBigNumber_B:
  assumes "10 ^ 9 \<le> x" "x < 10 ^ 30"
  shows "formatBigNumber (Fin x) = Some (dec (nat (round_half_away (x / 10 ^ 9))) @ ''B'')"
proof -
  have a: "\<bar>x / 10 ^ 9\<bar> < 10 ^ 21" using assms by (simp add: abs_if)
  have r: "0 \<le> round_half_away (x / 10 ^ 9)" using assms by (simp add: round_half_away_def)
  have "js_div (Fin x) (Fin (10 ^ 9)) = Fin (x / 10 ^ 9)"
    using assms by (intro js_div_Fin) auto
  with assms toFixed0_Fin [OF a] r show ?thesis
    by (simp add: formatBigNumber_def js_lt_def)
qed

lemma formatBigNumber_listed:
  "formatBigNumber (Fin 0) = Some ''0''"
  "formatBigNumber (Fin 999) = Some ''999''"
  "formatBigNumber (Fin 1000) = Some ''1K''"
  "formatBigNumber (Fin 999999) = Some ''1000K''"
  "formatBigNumber (Fin 1000000) = Some ''1M''"
  "formatBigNumber (Fin 1000000000) = Some ''1B''"
  by (simp_all add: formatBigNumber_def js_lt_def js_div_def toFixed0_def dec.simps digit_char_def)

text \<open>
  Claim C9. The formatter prints 0 as \<open>0\<close>, 999 as \<open>999\<close>, 1000 as \<open>1K\<close>, 999999 as
  \<open>1000K\<close> (not promoted to \<open>M\<close>), 1000000 as \<open>1M\<close> and 1000000000 as \<open>1B\<close>. At each
  tier the digits printed are those of the value divided by the tier's unit and rounded to
  the nearest integer, a half away from zero: below \<open>10^3\<close> the value itself, with its
  sign; from \<open>10^3\<close> the thousands with \<open>K\<close>; from \<open>10^6\<close> the millions with \<open>M\<close>; from
  \<open>10^9\<close> the billions with \<open>B\<close> (for values whose quotient is below \<open>10^21\<close>).
\<close>

theorem formatBigNumber_tiers:
  "formatBigNumber (Fin 0) = Some ''0'' \<and>
   formatBigNumber (Fin 999) = Some ''999'' \<and>
   formatBigNumber (Fin 1000) = Some ''1K'' \<and>
   formatBigNumber (Fin 999999) = Some ''1000K'' \<and>
   formatBigNumber (Fin 1000000) = Some ''1M'' \<and>
   formatBigNumber (Fin 1000000000) = Some ''1B'' \<and>
   (\<forall>x. x < 10 ^ 3 \<and> \<bar>x\<bar> < 10 ^ 21 \<longrightarrow>
      formatBigNumber (Fin x) =
        Some ((if x < 0 then ''-'' else '''') @ dec (nat \<bar>round_half_away x\<bar>))) \<and>
   (\<forall>x. 10 ^ 3 \<le> x \<and> x < 10 ^ 6 \<longrightarrow>
      formatBigNumber (Fin x) = Some (dec (nat (round_half_away (x / 10 ^ 3))) @ ''K'')) \<and>
   (\<forall>x. 10 ^ 6 \<le> x \<and> x < 10 ^ 9 \<longrightarrow>
      formatBigNumber (Fin x) = Some (dec (nat (round_half_away (x / 10 ^ 6))) @ ''M'')) \<and>
   (\<forall>x. 10 ^ 9 \<le> x \<and> x < 10 ^ 30 \<longrightarrow>
      formatBigNumber (Fin x) = Some (dec (nat (round_half_away (x / 10 ^ 9))) @ ''B''))"
  using formatBigNumber_listed formatBigNumber_units formatBigNumber_K formatBigNumber_M
    formatBigNumber_B
  by simp

theorem formatBigNumber_tiers_witness:
  "(5 / 2 :: real) < 10 ^ 3 \<and> \<bar>5 / 2 :: real\<bar> < 10 ^ 21 \<and> formatBigNumber (Fin (5 / 2)) = Some ''3'' \<and>
   (- 5 / 2 :: real) < 10 ^ 3 \<and> \<bar>- 5 / 2 :: real\<bar> < 10 ^ 21 \<and> formatBigNumber (Fin (- 5 / 2)) = Some ''-3'' \<and>
   (10 :: real) ^ 3 \<le> 2500 \<and> (2500 :: real) < 10 ^ 6 \<and> formatBigNumber (Fin 2500) = Some ''3K'' \<and>
   (10 :: real) ^ 6 \<le> 1499999 \<and> (1499999 :: real) < 10 ^ 9 \<and> formatBigNumber (Fin 1499999) = Some ''1M'' \<and>
   (10 :: real) ^ 9 \<le> 7500000000 \<and> (7500000000 :: real) < 10 ^ 30 \<and>
     formatBigNumber (Fin 7500000000) = Some ''8B''"
proof -
  have t: "\<And>x. x < 10 ^ 3 \<and> \<bar>x\<bar> < 10 ^ 21 \<longrightarrow>
      formatBigNumber (Fin x) =
        Some ((if x < 0 then ''-'' else '''') @ dec (nat \<bar>round_half_away x\<bar>))"
    and k: "\<And>x. 10 ^ 3 \<le> x \<and> x < 10 ^ 6 \<longrightarrow>
      formatBigNumber (Fin x) = Some (dec (nat (round_half_away (x / 10 ^ 3))) @ ''K'')"
    and m: "\<And>x. 10 ^ 6 \<le> x \<and> x < 10 ^ 9 \<longrightarrow>
      formatBigNumber (Fin x) = Some (dec (nat (round_half_away (x / 10 ^ 6))) @ ''M'')"
    and b: "\<And>x. 10 ^ 9 \<le> x \<and> x < 10 ^ 30 \<longrightarrow>
      formatBigNumber (Fin x) = Some (dec (nat (round_half_away (x / 10 ^ 9))) @ ''B'')"
    using formatBigNumber_tiers by blast+
  show ?thesis
    using t [of "5 / 2"] t [of "- 5 / 2"] k [of 2500] m [of 1499999] b [of 7500000000]
    by (simp add: round_half_away_def dec.simps digit_char_def)
qed

subsection \<open>The score formula\<close>

lemma getIndex_numerator:
  assumes "finite_value (n_Gold t) = Some a" "finite_value (n_Silver t) = Some b"
    "finite_value (n_Bronze t) = Some c"
    "finite_value (parseInt g) = Some gw" "finite_value (parseInt s) = Some sw"
    "finite_value (parseInt z) = Some bw"
  shows "\<exists>num. finite_value num
            = Some (a * (gw + 1 / 10 ^ 5) + b * (sw + 1 / 10 ^ 8) + c * (bw + 1 / 10 ^ 11)) \<and>
          getIndex pop t g s z dv
            = js_div num (if dv then population_operand pop (c_NOCShort t) else Fin 1)"
proof -
  let ?n = "js_add
          (js_add
             (js_mul (n_Gold t) (js_add (parseInt g) (Fin (10 / 10 ^ 6))))
             (js_mul (n_Silver t) (js_add (parseInt s) (Fin (10 / 10 ^ 9)))))
          (js_mul (n_Bronze t) (js_add (parseInt z) (Fin (10 / 10 ^ 12))))"
  have g: "finite_value (js_mul (n_Gold t) (js_add (parseInt g) (Fin (10 / 10 ^ 6))))
      = Some (a * (gw + 1 / 10 ^ 5))"
    using finite_value_mul [OF assms(1) finite_value_add [OF assms(4), of "Fin (10 / 10 ^ 6)"]]
    by simp
  have s: "finite_value (js_mul (n_Silver t) (js_add (parseInt s) (Fin (10 / 10 ^ 9))))
      = Some (b * (sw + 1 / 10 ^ 8))"
    using finite_value_mul [OF assms(2) finite_value_add [OF assms(5), of "Fin (10 / 10 ^ 9)"]]
    by simp
  have z: "finite_value (js_mul (n_Bronze t) (js_add (parseInt z) (Fin (10 / 10 ^ 12))))
      = Some (c * (bw + 1 / 10 ^ 11))"
    using finite_value_mul [OF assms(3) finite_value_add [OF assms(6), of "Fin (10 / 10 ^ 12)"]]
    by simp
  have "finite_value ?n
      = Some (a * (gw + 1 / 10 ^ 5) + b * (sw + 1 / 10 ^ 8) + c * (bw + 1 / 10 ^ 11))"
    by (rule finite_value_add [OF finite_value_add [OF g s] z])
  moreover have "getIndex pop t g s z dv
      = js_div ?n (if dv then population_operand pop (c_NOCShort t) else Fin 1)"
    by (simp add: getIndex_def)
  ultimately show ?thesis by blast
qed

text \<open>
  Claim C1. For a country whose medal counts are the finite numbers \<open>a\<close>, \<open>b\<close>, \<open>c\<close> and
  weight strings that parse to the integers \<open>gw\<close>, \<open>sw\<close>, \<open>bw\<close>, the score is the
  JavaScript quotient of a number of value
  \<open>a * (gw + 10^-5) + b * (sw + 10^-8) + c * (bw + 10^-11)\<close> by the country's population
  \<open>p\<close> when the division by population is on, and by 1 otherwise; where that divisor is
  not zero, the score is the value of the specification's formula.
\<close>

theorem getIndex_formula:
  assumes "finite_value (n_Gold t) = Some a" "finite_value (n_Silver t) = Some b"
    "finite_value (n_Bronze t) = Some c"
    "finite_value (parseInt g) = Some (of_int gw)" "finite_value (parseInt s) = Some (of_int sw)"
    "finite_value (parseInt z) = Some (of_int bw)"
    "dv \<longrightarrow> pop (c_NOCShort t) = Some p"
  shows "(\<exists>num. finite_value num = Some (spec_score a b c gw sw bw 1) \<and>
            getIndex pop t g s z dv = js_div num (Fin (if dv then real p else 1))) \<and>
         ((dv \<longrightarrow> 0 < p) \<longrightarrow>
            finite_value (getIndex pop t g s z dv)
              = Some (spec_score a b c gw sw bw (if dv then real p else 1)))"
proof -
  obtain num where n: "finite_value num = Some (spec_score a b c gw sw bw 1)"
    and e: "getIndex pop t g s z dv
      = js_div num (if dv then population_operand pop (c_NOCShort t) else Fin 1)"
    using getIndex_numerator [OF assms(1-6), of pop dv] by (auto simp: spec_score_def)
  have d: "(if dv then population_operand pop (c_NOCShort t) else Fin 1)
      = Fin (if dv then real p else 1)"
    using assms(7) by (simp add: population_operand_def)
  have "finite_value (getIndex pop t g s z dv)
      = Some (spec_score a b c gw sw bw (if dv then real p else 1))" if "dv \<longrightarrow> 0 < p"
  proof -
    have "(if dv then real p else 1) \<noteq> 0" using that by simp
    from finite_value_div [OF n _ this, of "Fin (if dv then real p else 1)"]
    show ?thesis by (simp add: e d spec_score_def)
  qed
  with n e d show ?thesis by auto
qed

lemma parseInt_small:
  "parseInt ''0'' = Fin 0" "parseInt ''1'' = Fin 1" "parseInt ''2'' = Fin 2"
  "parseInt ''3'' = Fin 3" "parseInt ''4'' = Fin 4" "parseInt ''5'' = Fin 5"
  "parseInt ''6'' = Fin 6" "parseInt ''7'' = Fin 7" "parseInt ''8'' = Fin 8"
  "parseInt ''9'' = Fin 9" "parseInt ''10'' = Fin 10"
  by (simp_all add: parseInt_def is_ws_def is_radix_digit_def digit_val_def zero_of_def)

theorem getIndex_formula_witness:
  "finite_value (n_Gold team_A) = Some 1 \<and> finite_value (n_Silver team_A) = Some 0 \<and>
   finite_value (n_Bronze team_A) = Some 0 \<and>
   finite_value (parseInt ''3'') = Some (of_int 3) \<and>
   finite_value (parseInt ''2'') = Some (of_int 2) \<and>
   finite_value (parseInt ''1'') = Some (of_int 1) \<and>
   population_A (c_NOCShort team_A) = Some 1000 \<and>
   finite_value (getIndex population_A team_A ''3'' ''2'' ''1'' True) = Some (300001 / 100000000)"
proof -
  have h: "finite_value (n_Gold team_A) = Some 1" "finite_value (n_Silver team_A) = Some 0"
    "finite_value (n_Bronze team_A) = Some 0"
    "finite_value (parseInt ''3'') = Some (of_int 3)"
    "finite_value (parseInt ''2'') = Some (of_int 2)"
    "finite_value (parseInt ''1'') = Some (of_int 1)"
    "True \<longrightarrow> population_A (c_NOCShort team_A) = Some 1000"
    by (simp_all add: team_A_def population_A_def parseInt_small)
  from getIndex_formula [where t = team_A and pop = population_A and dv = True and p = 1000
      and gw = 3 and sw = 2 and bw = 1, OF h] h
  show ?thesis
    by (simp add: spec_score_def)
qed

subsection \<open>Sorting and rendering\<close>

lemma mset_insert_sorted: "mset (insert_sorted f x ys) = add_mset x (mset ys)"
  by (induction ys) auto

lemma mset_array_sort: "mset (array_sort f xs) = mset xs"
  by (induction xs) (auto simp: array_sort_def mset_insert_sorted)

lemma set_insert_sorted: "set (insert_sorted f x ys) = insert x (set ys)"
  using mset_insert_sorted [of f x ys, THEN arg_cong, of set_mset] by simp

lemma js_lt_asym: "js_lt a b \<Longrightarrow> js_ge b a"
  by (auto simp: js_ge_def js_lt_def)

lemma js_ge_total: "a \<noteq> NaN \<Longrightarrow> b \<noteq> NaN \<Longrightarrow> \<not> js_lt a b \<Longrightarrow> js_ge a b"
  by (simp add: js_ge_def)

lemma js_ge_trans: "js_ge a b \<Longrightarrow> js_ge b c \<Longrightarrow> js_ge a c"
  by (auto simp: js_ge_def js_lt_def)

lemma js_neg_level [simp]: "level (js_neg y) = - level y"
  by (cases y) auto

lemma js_neg_mag [simp]: "mag (js_neg y) = - mag y"
  by (cases y) auto

lemma js_neg_NaN [simp]: "js_neg y = NaN \<longleftrightarrow> y = NaN"
  by (cases y) auto

lemma level_cases: "level x = -1 \<or> level x = 0 \<or> level x = 1"
  by (cases x) auto

lemma level_mag: "level x \<noteq> 0 \<Longrightarrow> mag x = 0"
  by (cases x) auto

lemma js_sub_positive:
  assumes "a \<noteq> NaN" "b \<noteq> NaN"
  shows "js_lt (Fin 0) (let v = js_sub b a in if v = NaN then Fin 0 else v) \<longleftrightarrow> js_lt a b"
  using assms level_cases [of a] level_cases [of b] level_mag [of a] level_mag [of b]
  by (cases a; cases b) (auto simp: js_sub_def js_add_def js_lt_def Let_def)


lemma comparator_positive:
  assumes "score pop c a \<noteq> NaN" "score pop c b \<noteq> NaN"
  shows "js_lt (Fin 0) (sort_compare (comparator pop c) a b) \<longleftrightarrow>
         js_lt (score pop c a) (score pop c b)"
  using js_sub_positive [OF assms]
  by (simp add: sort_compare_def comparator_def score_def)

lemma sorted_insert_sorted:
  assumes "score pop c x \<noteq> NaN" "\<forall>y \<in> set ys. score pop c y \<noteq> NaN"
    "sorted_wrt (\<lambda>a b. js_ge (score pop c a) (score pop c b)) ys"
  shows "sorted_wrt (\<lambda>a b. js_ge (score pop c a) (score pop c b))
           (insert_sorted (comparator pop c) x ys)"
  using assms
proof (induction ys)
  case Nil
  then show ?case by simp
next
  case (Cons y ys)
  show ?case
  proof (cases "js_lt (score pop c x) (score pop c y)")
    case True
    then have "js_ge (score pop c y) (score pop c x)" by (rule js_lt_asym)
    with True Cons show ?thesis
      by (auto simp: comparator_positive set_insert_sorted)
  next
    case False
    with Cons.prems have xy: "js_ge (score pop c x) (score pop c y)"
      by (simp add: js_ge_total)
    have "js_ge (score pop c x) (score pop c z)" if "z \<in> set ys" for z
      using that Cons.prems(3) xy by (auto intro: js_ge_trans)
    with False xy Cons.prems show ?thesis
      by (simp add: comparator_positive)
  qed
qed

lemma sorted_array_sort:
  assumes "\<forall>y \<in> set xs. score pop c y \<noteq> NaN"
  shows "sorted_wrt (\<lambda>a b. js_ge (score pop c a) (score pop c b))
           (array_sort (comparator pop c) xs)"
  using assms
proof (induction xs)
  case Nil
  then show ?case by (simp add: array_sort_def)
next
  case (Cons x xs)
  have "set (array_sort (comparator pop c) xs) = set xs"
    using mset_array_sort [of "comparator pop c" xs, THEN arg_cong, of set_mset] by simp
  with Cons show ?case
    using sorted_insert_sorted [of pop c x "array_sort (comparator pop c) xs"]
    by (simp add: array_sort_def)
qed

lemma render_rows: "map row_team (snd (render pop st)) = MedalTableNOC (fst (render pop st))"
  by (simp add: render_def Let_def comp_def case_prod_unfold)

lemma render_array:
  "MedalTableNOC (fst (render pop st)) = array_sort (comparator pop (signals st)) (MedalTableNOC st)"
  by (simp add: render_def Let_def)

lemma render_signals: "signals (fst (render pop st)) = signals st"
  by (simp add: render_def Let_def)

lemma default_config_fields:
  "goldWeight default_config = ''3''" "silverWeight default_config = ''2''"
  "bronzeWeight default_config = ''1''" "divideByPopulation default_config = False"
  by (simp_all add: default_config_def init_signals_def sp_get_def sp_has_def
      defaultGoldWeight_def defaultSilverWeight_def defaultBronzeWeight_def)

lemma example_scores:
  "score population_A default_config team_A = Fin (300001 / 100000)"
  "score population_A default_config team_B = Fin (900000003003 / 100000000000)"
  "score population_A (default_config\<lparr>divideByPopulation := True\<rparr>) team_A
     = Fin (300001 / 100000000)"
  "score population_A (default_config\<lparr>divideByPopulation := True\<rparr>) team_B = NaN"
  by (simp_all add: score_def getIndex_def default_config_fields parseInt_small team_A_def
      team_B_def population_A_def population_operand_def js_add_def js_mul_def js_div_def
      zero_of_def inf_of_def)

lemma example_render:
  "render population_A \<lparr>signals = default_config, MedalTableNOC = [team_A, team_B]\<rparr>
     = (\<lparr>signals = default_config, MedalTableNOC = [team_B, team_A]\<rparr>,
        [\<lparr>rank = 1, row_team = team_B, cell = Some ''9''\<rparr>,
         \<lparr>rank = 2, row_team = team_A, cell = Some ''3''\<rparr>])"
proof -
  have c: "comparator population_A default_config team_A team_B
      = Fin (900000003003 / 100000000000 - 300001 / 100000)"
    using example_scores(1,2) by (simp add: comparator_def score_def js_sub_def js_add_def)
  have s: "array_sort (comparator population_A default_config) [team_A, team_B] = [team_B, team_A]"
    by (simp add: array_sort_def sort_compare_def c js_lt_def)
  have w: "weighted_total default_config team_A = Fin 3" "weighted_total default_config team_B = Fin 9"
    by (simp_all add: weighted_total_def default_config_fields parseInt_small team_A_def
        team_B_def js_add_def js_mul_def zero_of_def)
  have p: "points_cell population_A default_config team_A = Some ''3''"
    "points_cell population_A default_config team_B = Some ''9''"
    by (simp_all add: points_cell_def default_config_fields w number_to_string_def dec.simps
        digit_char_def)
  show ?thesis
    by (simp add: render_def s p)
qed

text \<open>
  Claim C6, as amended. The countries of the rendered rows are a permutation of the
  country list: the same multiset of records, hence of country ids, with no entry dropped
  or duplicated. When no country's score is NaN, the rows are in descending order of
  score: for all positions \<open>i < j\<close> the score at \<open>i\<close> is \<open>>=\<close> the score at \<open>j\<close>.
\<close>

theorem render_permutation_descending:
  "mset (map row_team (snd (render pop st))) = mset (MedalTableNOC st) \<and>
   image_mset n_NOCID (mset (map row_team (snd (render pop st))))
     = image_mset n_NOCID (mset (MedalTableNOC st)) \<and>
   ((\<forall>t \<in> set (MedalTableNOC st). score pop (signals st) t \<noteq> NaN) \<longrightarrow>
    (\<forall>i j. i < j \<and> j < length (snd (render pop st)) \<longrightarrow>
       js_ge (score pop (signals st) (row_team (snd (render pop st) ! i)))
             (score pop (signals st) (row_team (snd (render pop st) ! j)))))"
proof -
  let ?r = "map row_team (snd (render pop st))"
  have r: "?r = array_sort (comparator pop (signals st)) (MedalTableNOC st)"
    by (simp only: render_rows render_array)
  have m: "mset ?r = mset (MedalTableNOC st)"
    by (simp only: r mset_array_sort)
  have "js_ge (score pop (signals st) (row_team (snd (render pop st) ! i)))
             (score pop (signals st) (row_team (snd (render pop st) ! j)))"
    if h: "\<forall>t \<in> set (MedalTableNOC st). score pop (signals st) t \<noteq> NaN"
      and ij: "i < j" "j < length (snd (render pop st))" for i j
  proof -
    have "sorted_wrt (\<lambda>a b. js_ge (score pop (signals st) a) (score pop (signals st) b)) ?r"
      unfolding r using h by (rule sorted_array_sort)
    moreover have "i < j" "j < length ?r" using ij by simp_all
    ultimately have "js_ge (score pop (signals st) (?r ! i)) (score pop (signals st) (?r ! j))"
      by (rule sorted_wrt_nth_less)
    with ij show ?thesis by simp
  qed
  with m show ?thesis by (metis (no_types, lifting))
qed

theorem render_permutation_descending_witness:
  "score population_A default_config team_A \<noteq> NaN \<and>
   score population_A default_config team_B \<noteq> NaN \<and>
   mset (map row_team (snd (render population_A
      \<lparr>signals = default_config, MedalTableNOC = [team_A, team_B]\<rparr>))) = {#team_A, team_B#} \<and>
   js_ge (score population_A default_config team_B) (score population_A default_config team_A)"
proof -
  let ?st = "\<lparr>signals = default_config, MedalTableNOC = [team_A, team_B]\<rparr>"
  have h: "\<forall>t \<in> set (MedalTableNOC ?st). score population_A (signals ?st) t \<noteq> NaN"
    by (simp add: example_scores)
  have m: "mset (map row_team (snd (render population_A ?st))) = mset (MedalTableNOC ?st)"
    using render_permutation_descending [of population_A ?st] by blast
  have "\<forall>i j. i < j \<and> j < length (snd (render population_A ?st)) \<longrightarrow>
       js_ge (score population_A (signals ?st) (row_team (snd (render population_A ?st) ! i)))
             (score population_A (signals ?st) (row_team (snd (render population_A ?st) ! j)))"
    using render_permutation_descending [of population_A ?st] h by blast
  then have "0 < Suc 0 \<and> Suc 0 < length (snd (render population_A ?st)) \<longrightarrow>
       js_ge (score population_A (signals ?st) (row_team (snd (render population_A ?st) ! 0)))
             (score population_A (signals ?st) (row_team (snd (render population_A ?st) ! Suc 0)))"
    by blast
  then have "js_ge (score population_A default_config team_B)
      (score population_A default_config team_A)"
    by (simp add: example_render)
  with h m show ?thesis by simp
qed

text \<open>
  The claim as stated fails where a score is NaN. With the division by population on and
  no population entry for \<open>BBB\<close>, the rows are A, B and the score of the first row is not
  \<open>>=\<close> the score of the second, which is NaN.
\<close>

theorem render_descending_counterexample:
  "\<not> (\<forall>i j. i < j \<and>
        j < length (snd (render population_A
              \<lparr>signals = default_config\<lparr>divideByPopulation := True\<rparr>,
               MedalTableNOC = [team_A, team_B]\<rparr>)) \<longrightarrow>
        js_ge (score population_A (default_config\<lparr>divideByPopulation := True\<rparr>)
                 (row_team (snd (render population_A
                    \<lparr>signals = default_config\<lparr>divideByPopulation := True\<rparr>,
                     MedalTableNOC = [team_A, team_B]\<rparr>) ! i)))
              (score population_A (default_config\<lparr>divideByPopulation := True\<rparr>)
                 (row_team (snd (render population_A
                    \<lparr>signals = default_config\<lparr>divideByPopulation := True\<rparr>,
                     MedalTableNOC = [team_A, team_B]\<rparr>) ! j))))"
proof -
  let ?c = "default_config\<lparr>divideByPopulation := True\<rparr>"
  let ?rows = "snd (render population_A \<lparr>signals = ?c, MedalTableNOC = [team_A, team_B]\<rparr>)"
  have c: "comparator population_A ?c team_A team_B = NaN"
    using example_scores(3,4) by (simp add: comparator_def score_def js_sub_def js_add_def)
  have s: "array_sort (comparator population_A ?c) [team_A, team_B] = [team_A, team_B]"
    by (simp add: array_sort_def sort_compare_def c js_lt_def)
  have r: "map row_team ?rows = [team_A, team_B]"
    by (simp add: render_rows render_array s)
  then have l: "length ?rows = 2"
    using length_map [of row_team ?rows] by simp
  from r l have n: "row_team (?rows ! 0) = team_A" "row_team (?rows ! Suc 0) = team_B"
    using nth_map [of 0 ?rows row_team] nth_map [of "Suc 0" ?rows row_team] by simp_all
  have "\<not> js_ge (score population_A ?c (row_team (?rows ! 0)))
              (score population_A ?c (row_team (?rows ! Suc 0)))"
    unfolding n by (simp add: example_scores js_ge_def)
  moreover have "0 < Suc 0 \<and> Suc 0 < length ?rows" using l by simp
  ultimately show ?thesis by blast
qed

text \<open>
  Claim C3, as amended. Rendering leaves the signals (the weights and the population
  switch) unchanged and keeps every record of the country list as it is, each as often as
  it occurred; but \<open>sort\<close> works in place, so afterwards the array \<open>MedalTableNOC\<close> holds
  its records in ranked order.
\<close>

theorem render_frame:
  "signals (fst (render pop st)) = signals st \<and>
   mset (MedalTableNOC (fst (render pop st))) = mset (MedalTableNOC st) \<and>
   MedalTableNOC (fst (render pop st))
     = array_sort (comparator pop (signals st)) (MedalTableNOC st)"
  by (simp add: render_signals render_array mset_array_sort)

theorem render_frame_witness:
  "signals (fst (render population_A \<lparr>signals = default_config, MedalTableNOC = [team_A, team_B]\<rparr>))
     = default_config \<and>
   mset (MedalTableNOC (fst (render population_A
      \<lparr>signals = default_config, MedalTableNOC = [team_A, team_B]\<rparr>))) = {#team_A, team_B#}"
proof -
  let ?st = "\<lparr>signals = default_config, MedalTableNOC = [team_A, team_B]\<rparr>"
  have "signals (fst (render population_A ?st)) = signals ?st"
    and "mset (MedalTableNOC (fst (render population_A ?st))) = mset (MedalTableNOC ?st)"
    using render_frame [of population_A ?st] by blast+
  then show ?thesis by simp
qed

text \<open>
  The claim as stated fails: after rendering the list A, B with the default weights the
  array is B, A.
\<close>

theorem render_mutates_counterexample:
  "MedalTableNOC (fst (render population_A
      \<lparr>signals = default_config, MedalTableNOC = [team_A, team_B]\<rparr>))
   \<noteq> MedalTableNOC \<lparr>signals = default_config, MedalTableNOC = [team_A, team_B]\<rparr>"
proof -
  have "team_A \<noteq> team_B" by (simp add: team_A_def team_B_def)
  then show ?thesis by (simp add: example_render)
qed

subsection \<open>Zero weights, missing populations, zero totals\<close>

lemma strict_zero_finite: "js_strict_eq x (Fin 0) \<Longrightarrow> finite_value x = Some 0"
  by (cases x) (auto simp: js_strict_eq_def)

lemma weighted_total_finite:
  assumes "finite_value (n_Gold t) = Some a" "finite_value (n_Silver t) = Some b"
    "finite_value (n_Bronze t) = Some c"
    "finite_value (parseInt (goldWeight cf)) = Some gw"
    "finite_value (parseInt (silverWeight cf)) = Some sw"
    "finite_value (parseInt (bronzeWeight cf)) = Some bw"
  shows "finite_value (weighted_total cf t) = Some (a * gw + b * sw + c * bw)"
  unfolding weighted_total_def
  by (intro finite_value_add finite_value_mul assms)

text \<open>
  Claim C2, as amended. With a gold weight that parses to zero and the division by
  population off, the gold medals keep their tie-break term: for finite medal counts
  \<open>a\<close>, \<open>b\<close>, \<open>c\<close> the score is \<open>a * 10^-5 + b * (sw + 10^-8) + c * (bw + 10^-11)\<close>, so it
  grows with the gold count; only the points shown, \<open>b * sw + c * bw\<close>, are independent
  of the gold count. (A weight of zero carries the label \<open>Tiebreaker\<close>.)
\<close>

theorem zero_weight_keeps_tiebreak:
  assumes "finite_value (n_Gold t) = Some a" "finite_value (n_Silver t) = Some b"
    "finite_value (n_Bronze t) = Some c"
    "js_strict_eq (parseInt (goldWeight cf)) (Fin 0)"
    "finite_value (parseInt (silverWeight cf)) = Some sw"
    "finite_value (parseInt (bronzeWeight cf)) = Some bw"
    "\<not> divideByPopulation cf"
  shows "finite_value (score pop cf t)
           = Some (a / 10 ^ 5 + b * (sw + 1 / 10 ^ 8) + c * (bw + 1 / 10 ^ 11)) \<and>
         finite_value (weighted_total cf t) = Some (b * sw + c * bw)"
proof -
  have g: "finite_value (parseInt (goldWeight cf)) = Some 0"
    using assms(4) by (rule strict_zero_finite)
  obtain num where n: "finite_value num
            = Some (a * (0 + 1 / 10 ^ 5) + b * (sw + 1 / 10 ^ 8) + c * (bw + 1 / 10 ^ 11))"
    and e: "score pop cf t = js_div num (Fin 1)"
    using getIndex_numerator [OF assms(1-3) g assms(5,6), of pop "divideByPopulation cf"] assms(7)
    by (auto simp: score_def)
  have "finite_value (score pop cf t)
      = Some ((a * (0 + 1 / 10 ^ 5) + b * (sw + 1 / 10 ^ 8) + c * (bw + 1 / 10 ^ 11)) / 1)"
    unfolding e by (rule finite_value_div [OF n]) simp_all
  moreover have "finite_value (weighted_total cf t) = Some (a * 0 + b * sw + c * bw)"
    by (rule weighted_total_finite [OF assms(1-3) g assms(5,6)])
  ultimately show ?thesis by simp
qed

theorem zero_weight_keeps_tiebreak_witness:
  "finite_value (n_Gold team_A) = Some 1 \<and> finite_value (n_Silver team_A) = Some 0 \<and>
   finite_value (n_Bronze team_A) = Some 0 \<and>
   js_strict_eq (parseInt (goldWeight (default_config\<lparr>goldWeight := ''0''\<rparr>))) (Fin 0) \<and>
   finite_value (parseInt (silverWeight (default_config\<lparr>goldWeight := ''0''\<rparr>))) = Some 2 \<and>
   finite_value (parseInt (bronzeWeight (default_config\<lparr>goldWeight := ''0''\<rparr>))) = Some 1 \<and>
   \<not> divideByPopulation (default_config\<lparr>goldWeight := ''0''\<rparr>) \<and>
   finite_value (score population_A (default_config\<lparr>goldWeight := ''0''\<rparr>) team_A)
     = Some (1 / 100000) \<and>
   finite_value (weighted_total (default_config\<lparr>goldWeight := ''0''\<rparr>) team_A) = Some 0"
proof -
  let ?c = "default_config\<lparr>goldWeight := ''0''\<rparr>"
  have h: "finite_value (n_Gold team_A) = Some 1" "finite_value (n_Silver team_A) = Some 0"
    "finite_value (n_Bronze team_A) = Some 0"
    "js_strict_eq (parseInt (goldWeight ?c)) (Fin 0)"
    "finite_value (parseInt (silverWeight ?c)) = Some 2"
    "finite_value (parseInt (bronzeWeight ?c)) = Some 1"
    "\<not> divideByPopulation ?c"
    by (simp_all add: team_A_def default_config_fields parseInt_small js_strict_eq_def)
  from zero_weight_keeps_tiebreak [OF h, of population_A] h show ?thesis
    by simp
qed

text \<open>
  The claim as stated fails: with the gold weight \<open>0\<close>, two countries that differ in their
  gold count only have different scores.
\<close>

theorem zero_weight_counterexample:
  "score population_A (default_config\<lparr>goldWeight := ''0''\<rparr>) (team_Z\<lparr>n_Gold := Fin 1\<rparr>)
   \<noteq> score population_A (default_config\<lparr>goldWeight := ''0''\<rparr>) (team_Z\<lparr>n_Gold := Fin 0\<rparr>)"
  by (simp add: score_def getIndex_def default_config_fields parseInt_small team_Z_def
      js_add_def js_mul_def js_div_def zero_of_def)

lemma js_div_NaN: "js_div x NaN = NaN" "js_div NaN y = NaN"
  by (simp_all add: js_div_def)

lemma formatBigNumber_NaN: "formatBigNumber NaN = Some ''NaNB''"
  by (simp add: formatBigNumber_def js_lt_def js_div_def toFixed0_def)

text \<open>
  Claim C4, as amended. With the division by population on and no population entry for a
  country's short code, the missing divisor is not replaced by 1: it propagates through
  the division as NaN. The score of the country is the number NaN and the ratio shown for
  it is the text \<open>NaNB\<close>; there is no separate marker for an unavailable result.
\<close>

theorem missing_population_NaN:
  assumes "divideByPopulation cf" "pop (c_NOCShort t) = None"
  shows "score pop cf t = NaN \<and> points_cell pop cf t = Some ''NaNB''"
  using assms
  by (simp add: score_def getIndex_def points_cell_def population_operand_def js_div_NaN
      formatBigNumber_NaN)

theorem missing_population_NaN_witness:
  "divideByPopulation (default_config\<lparr>divideByPopulation := True\<rparr>) \<and>
   Map.empty (c_NOCShort team_A) = (None :: nat option) \<and>
   score Map.empty (default_config\<lparr>divideByPopulation := True\<rparr>) team_A = NaN \<and>
   points_cell Map.empty (default_config\<lparr>divideByPopulation := True\<rparr>) team_A = Some ''NaNB''"
  using missing_population_NaN [of "default_config\<lparr>divideByPopulation := True\<rparr>" Map.empty team_A]
  by simp

text \<open>
  The claim as stated fails: country B has no population entry, and its score is NaN.
\<close>

theorem missing_population_counterexample:
  "population_A (c_NOCShort team_B) = None \<and>
   score population_A (default_config\<lparr>divideByPopulation := True\<rparr>) team_B = NaN \<and>
   points_cell population_A (default_config\<lparr>divideByPopulation := True\<rparr>) team_B
     = Some ''NaNB''"
proof -
  have p: "population_A (c_NOCShort team_B) = None"
    by (simp add: population_A_def team_B_def)
  then show ?thesis
    by (simp add: example_scores points_cell_def population_operand_def js_div_NaN
        formatBigNumber_NaN)
qed

lemma formatBigNumber_infinite:
  "formatBigNumber PInf = Some ''InfinityB''" "formatBigNumber NInf = Some ''-Infinity''"
  by (simp_all add: formatBigNumber_def js_lt_def js_div_def toFixed0_def inf_of_def)

text \<open>
  Claim C5, as amended. With the division by population on, for every country whose
  weighted total is zero the ratio shown is the text \<open>InfinityB\<close> when the population
  entry is positive (\<open>-Infinity\<close> when the total is the negative zero), and \<open>NaNB\<close> when
  the entry is zero or missing; there is no "not applicable" result.
\<close>

theorem zero_total_ratio:
  assumes "divideByPopulation cf" "js_strict_eq (weighted_total cf t) (Fin 0)"
  shows "points_cell pop cf t
     = Some (case pop (c_NOCShort t) of
               None \<Rightarrow> ''NaNB''
             | Some p \<Rightarrow>
                 if p = 0 then ''NaNB''
                 else if weighted_total cf t = NegZero then ''-Infinity''
                 else ''InfinityB'')"
proof -
  from assms(2) consider "weighted_total cf t = Fin 0" | "weighted_total cf t = NegZero"
    by (cases "weighted_total cf t") (auto simp: js_strict_eq_def)
  then show ?thesis
  proof cases
    case 1
    with assms(1) show ?thesis
      by (simp add: points_cell_def population_operand_def js_div_def inf_of_def
          formatBigNumber_NaN formatBigNumber_infinite split: option.split)
  next
    case 2
    with assms(1) show ?thesis
      by (simp add: points_cell_def population_operand_def js_div_def inf_of_def
          formatBigNumber_NaN formatBigNumber_infinite split: option.split)
  qed
qed

lemma team_Z_total:
  "weighted_total (default_config\<lparr>divideByPopulation := True\<rparr>) team_Z = Fin 0"
  by (simp add: weighted_total_def default_config_fields parseInt_small team_Z_def
      js_add_def js_mul_def zero_of_def)

theorem zero_total_ratio_witness:
  "divideByPopulation (default_config\<lparr>divideByPopulation := True\<rparr>) \<and>
   js_strict_eq (weighted_total (default_config\<lparr>divideByPopulation := True\<rparr>) team_Z) (Fin 0) \<and>
   points_cell [''AAA'' \<mapsto> 0] (default_config\<lparr>divideByPopulation := True\<rparr>) team_Z
     = Some ''NaNB'' \<and>
   points_cell [''AAA'' \<mapsto> 5] (default_config\<lparr>divideByPopulation := True\<rparr>) team_Z
     = Some ''InfinityB''"
proof -
  let ?c = "default_config\<lparr>divideByPopulation := True\<rparr>"
  have h: "divideByPopulation ?c" "js_strict_eq (weighted_total ?c team_Z) (Fin 0)"
    by (simp_all add: team_Z_total js_strict_eq_def)
  from zero_total_ratio [OF h, of "[''AAA'' \<mapsto> 0]"] zero_total_ratio [OF h, of "[''AAA'' \<mapsto> 5]"] h
  show ?thesis
    by (simp add: team_Z_total) (simp add: team_Z_def)
qed

text \<open>
  The claim as stated fails: for the country without medals and with a population of
  1000 the ratio shown is \<open>InfinityB\<close>.
\<close>

theorem zero_total_ratio_counterexample:
  "js_strict_eq (weighted_total (default_config\<lparr>divideByPopulation := True\<rparr>) team_Z) (Fin 0) \<and>
   points_cell population_A (default_config\<lparr>divideByPopulation := True\<rparr>) team_Z
     = Some ''InfinityB''"
  by (simp add: team_Z_total js_strict_eq_def points_cell_def population_operand_def
      population_A_def js_div_def inf_of_def formatBigNumber_infinite)
    (simp add: team_Z_def)

subsection \<open>The query string\<close>

lemma sp_get_delete: "sp_get (sp_delete ps n) m = (if m = n then None else sp_get ps m)"
  by (induction ps) (auto simp: sp_get_def sp_delete_def)

lemma sp_get_set: "sp_get (sp_set ps n v) m = (if m = n then Some v else sp_get ps m)"
proof (induction ps)
  case Nil
  then show ?case by (simp add: sp_get_def)
next
  case (Cons kv ps)
  show ?case
  proof (cases "fst kv = n")
    case True
    then show ?thesis
      using sp_get_delete [of ps n m] by (cases kv) (auto simp: sp_get_def)
  next
    case False
    with Cons show ?thesis by (cases kv) (auto simp: sp_get_def)
  qed
qed

lemma sp_has_get: "sp_has ps n \<longleftrightarrow> sp_get ps n \<noteq> None"
  by (simp add: sp_has_def sp_get_def map_of_eq_None_iff)

lemma init_signals_visible_task: "init_signals (visible_task c ps) = c"
  by (cases c)
    (simp add: init_signals_def visible_task_def Let_def sp_get_set sp_get_delete sp_has_get)

lemma has_population_visible_task:
  "sp_has (visible_task c ps) ''population'' = divideByPopulation c"
  by (simp add: visible_task_def Let_def sp_get_set sp_get_delete sp_has_get)

lemma dec_small:
  "dec 0 = ''0''" "dec 1 = ''1''" "dec 2 = ''2''" "dec 3 = ''3''" "dec 4 = ''4''"
  "dec 5 = ''5''" "dec 6 = ''6''" "dec 7 = ''7''" "dec 8 = ''8''" "dec 9 = ''9''"
  "dec 10 = ''10''" "dec (Suc 0) = ''1''"
  by (simp_all add: dec.simps digit_char_def)

lemma parseInt_dec:
  assumes "g \<le> 10"
  shows "parseInt (dec g) = Fin (real g)"
proof -
  from assms have "g = 0 \<or> g = 1 \<or> g = 2 \<or> g = 3 \<or> g = 4 \<or> g = 5 \<or> g = 6 \<or> g = 7
      \<or> g = 8 \<or> g = 9 \<or> g = 10"
    by arith
  then show ?thesis
    by (elim disjE) (simp_all add: dec_small parseInt_small)
qed

text \<open>
  Claim C7. For weights that are the decimal strings of integers from 0 to 10 and any
  value of the population switch, the signals read back from the query string that the
  visible task writes (whatever the query string was before) are the signals written:
  the three weights parse to the same integers, and the switch is recovered as the
  presence of the parameter \<open>population\<close>.
\<close>

theorem config_round_trip:
  assumes "g \<le> 10" "s \<le> 10" "b \<le> 10"
  shows "init_signals (visible_task
           \<lparr>goldWeight = dec g, silverWeight = dec s, bronzeWeight = dec b,
            divideByPopulation = n\<rparr> ps)
         = \<lparr>goldWeight = dec g, silverWeight = dec s, bronzeWeight = dec b,
            divideByPopulation = n\<rparr> \<and>
         sp_has (visible_task
           \<lparr>goldWeight = dec g, silverWeight = dec s, bronzeWeight = dec b,
            divideByPopulation = n\<rparr> ps) ''population'' = n \<and>
         parseInt (goldWeight (init_signals (visible_task
           \<lparr>goldWeight = dec g, silverWeight = dec s, bronzeWeight = dec b,
            divideByPopulation = n\<rparr> ps))) = Fin (real g) \<and>
         parseInt (silverWeight (init_signals (visible_task
           \<lparr>goldWeight = dec g, silverWeight = dec s, bronzeWeight = dec b,
            divideByPopulation = n\<rparr> ps))) = Fin (real s) \<and>
         parseInt (bronzeWeight (init_signals (visible_task
           \<lparr>goldWeight = dec g, silverWeight = dec s, bronzeWeight = dec b,
            divideByPopulation = n\<rparr> ps))) = Fin (real b)"
  using assms
  by (simp add: init_signals_visible_task has_population_visible_task parseInt_dec)

theorem config_round_trip_witness:
  "(5::nat) \<le> 10 \<and> (2::nat) \<le> 10 \<and> (1::nat) \<le> 10 \<and>
   visible_task \<lparr>goldWeight = ''5'', silverWeight = ''2'', bronzeWeight = ''1'',
                 divideByPopulation = True\<rparr> [] = [(''gold'', ''5''), (''population'', ''true'')] \<and>
   init_signals [(''gold'', ''5''), (''population'', ''true'')]
     = \<lparr>goldWeight = ''5'', silverWeight = ''2'', bronzeWeight = ''1'',
        divideByPopulation = True\<rparr>"
proof -
  have v: "visible_task \<lparr>goldWeight = ''5'', silverWeight = ''2'', bronzeWeight = ''1'',
                 divideByPopulation = True\<rparr> [] = [(''gold'', ''5''), (''population'', ''true'')]"
    by (simp add: visible_task_def defaultGoldWeight_def defaultSilverWeight_def
        defaultBronzeWeight_def sp_delete_def)
  have "init_signals (visible_task
           \<lparr>goldWeight = dec 5, silverWeight = dec 2, bronzeWeight = dec 1,
            divideByPopulation = True\<rparr> [])
         = \<lparr>goldWeight = dec 5, silverWeight = dec 2, bronzeWeight = dec 1,
            divideByPopulation = True\<rparr>"
    by (rule config_round_trip [THEN conjunct1]) simp_all
  then show ?thesis
    unfolding dec_small v by simp
qed

subsection \<open>The schema\<close>

lemma isl_collect: "isl (collect rs) \<longleftrightarrow> (\<exists>r \<in> set rs. isl r)"
  by (induction rs) (auto split: sum.splits)

lemma collect_Inl: "\<exists>r \<in> set rs. isl r \<Longrightarrow> isl (collect rs)"
  by (simp add: isl_collect)

lemma collect_Inr:
  "collect rs = Inr xs \<Longrightarrow> length xs = length rs \<and> (\<forall>i < length rs. rs ! i = Inr (xs ! i))"
proof (induction rs arbitrary: xs)
  case Nil
  then show ?case by simp
next
  case (Cons r rs)
  then obtain x xs' where r: "r = Inr x" and c: "collect rs = Inr xs'" and xs: "xs = x # xs'"
    by (auto split: sum.splits)
  from Cons.IH [OF c] r xs show ?case
    by (auto simp: nth_Cons')
qed

lemma z_number_string: "isl (z_number path (Some (JStr s)))"
  by (simp add: z_number_def)

lemma z_object_field:
  assumes "(k, s) \<in> set shape" "isl (s (path @ [Key k]) (map_of props k))"
  shows "isl (z_object shape path (Some (JObj props)))"
proof -
  have "s (path @ [Key k]) (map_of props k)
      \<in> set (map (\<lambda>(k, s). s (path @ [Key k]) (map_of props k)) shape)"
    using assms(1) by force
  with assms(2) have "isl (collect (map (\<lambda>(k, s). s (path @ [Key k]) (map_of props k)) shape))"
    by (intro collect_Inl) blast
  then show ?thesis
    by (auto simp: z_object_def split: sum.splits)
qed

lemma z_object_not_object: "(\<nexists>props. v = Some (JObj props)) \<Longrightarrow> isl (z_object shape path v)"
  by (auto simp: z_object_def split: option.splits jsval.splits)

lemma z_array_element:
  assumes "i < length xs" "isl (element (path @ [Idx i]) (Some (xs ! i)))"
  shows "isl (z_array element path (Some (JArr xs)))"
proof -
  have "map (\<lambda>(i, x). element (path @ [Idx i]) (Some x)) (enumerate 0 xs) ! i
      = element (path @ [Idx i]) (Some (xs ! i))"
    using assms(1) by (simp add: nth_enumerate_eq)
  with assms have "\<exists>r \<in> set (map (\<lambda>(i, x). element (path @ [Idx i]) (Some x)) (enumerate 0 xs)). isl r"
    by (metis (no_types, lifting) length_enumerate length_map nth_mem)
  then have "isl (collect (map (\<lambda>(i, x). element (path @ [Idx i]) (Some x)) (enumerate 0 xs)))"
    by (rule collect_Inl)
  then show ?thesis
    by (auto simp: z_array_def split: sum.splits)
qed

lemma useMedals_info:
  assumes "isl (medalTableInfoSchema [Key ''MedalTableInfo''] (map_of body ''MedalTableInfo''))"
  shows "isl (useMedals (JObj body))"
  unfolding useMedals_def z_parse_def medalTableSchema_def
  by (rule z_object_field [of "''MedalTableInfo''" medalTableInfoSchema]) (use assms in simp_all)

lemma useMedals_element:
  assumes "map_of body ''MedalTableNOC'' = Some (JArr es)" "i < length es"
    "isl (medalTableNOCSchema [Key ''MedalTableNOC'', Idx i] (Some (es ! i)))"
  shows "isl (useMedals (JObj body))"
proof -
  have "isl (z_array medalTableNOCSchema ([] @ [Key ''MedalTableNOC'']) (map_of body ''MedalTableNOC''))"
    unfolding assms(1) by (rule z_array_element [OF assms(2)]) (use assms(3) in simp)
  then show ?thesis
    unfolding useMedals_def z_parse_def medalTableSchema_def
    by (intro z_object_field [of "''MedalTableNOC''" "z_array medalTableNOCSchema"]) simp_all
qed

lemma useMedals_info_string:
  assumes "map_of body ''MedalTableInfo'' = Some (JObj info)"
    "(k, z_number) \<in> set medalTableInfoShape" "map_of info k = Some (JStr s)"
  shows "isl (useMedals (JObj body))"
proof (rule useMedals_info)
  show "isl (medalTableInfoSchema [Key ''MedalTableInfo''] (map_of body ''MedalTableInfo''))"
    unfolding assms(1) medalTableInfoSchema_def
    by (rule z_object_field [OF assms(2)]) (simp add: assms(3) z_number_string)
qed

lemma useMedals_element_string:
  assumes "map_of body ''MedalTableNOC'' = Some (JArr es)" "i < length es" "es ! i = JObj e"
    "(k, z_number) \<in> set medalTableNOCShape" "map_of e k = Some (JStr s)"
  shows "isl (useMedals (JObj body))"
proof (rule useMedals_element [OF assms(1,2)])
  show "isl (medalTableNOCSchema [Key ''MedalTableNOC'', Idx i] (Some (es ! i)))"
    unfolding assms(3) medalTableNOCSchema_def
    by (rule z_object_field [OF assms(4)]) (simp add: assms(5) z_number_string)
qed

lemma useMedals_not_object: "(\<nexists>body. raw = JObj body) \<Longrightarrow> isl (useMedals raw)"
  unfolding useMedals_def z_parse_def medalTableSchema_def
  by (rule z_object_not_object) simp

lemma z_array_Inr:
  assumes "z_array element path v = Inr w"
  shows "\<exists>xs ys. v = Some (JArr xs) \<and> w = JArr ys \<and> length ys = length xs \<and>
           (\<forall>i < length xs. element (path @ [Idx i]) (Some (xs ! i)) = Inr (ys ! i))"
proof -
  from assms obtain xs ys where v: "v = Some (JArr xs)" and w: "w = JArr ys"
    and c: "collect (map (\<lambda>(i, x). element (path @ [Idx i]) (Some x)) (enumerate 0 xs)) = Inr ys"
    by (auto simp: z_array_def split: option.splits jsval.splits sum.splits)
  from collect_Inr [OF c] have l: "length ys = length xs"
    and n: "\<forall>i < length xs. map (\<lambda>(i, x). element (path @ [Idx i]) (Some x)) (enumerate 0 xs) ! i
        = Inr (ys ! i)"
    by simp_all
  have "\<forall>i < length xs. element (path @ [Idx i]) (Some (xs ! i)) = Inr (ys ! i)"
    using n by (simp add: nth_enumerate_eq)
  with v w l show ?thesis by blast
qed

lemma useMedals_Inr:
  assumes "useMedals (JObj body) = Inr v"
  shows "\<exists>info' es es'. map_of body ''MedalTableNOC'' = Some (JArr es) \<and>
           medalTableInfoSchema [Key ''MedalTableInfo''] (map_of body ''MedalTableInfo'') = Inr info' \<and>
           length es' = length es \<and>
           (\<forall>i < length es.
              medalTableNOCSchema [Key ''MedalTableNOC'', Idx i] (Some (es ! i)) = Inr (es' ! i)) \<and>
           v = JObj [(''MedalTableInfo'', info'), (''MedalTableNOC'', JArr es')]"
proof -
  from assms obtain info' nocs' where
    i: "medalTableInfoSchema [Key ''MedalTableInfo''] (map_of body ''MedalTableInfo'') = Inr info'"
    and a: "z_array medalTableNOCSchema [Key ''MedalTableNOC''] (map_of body ''MedalTableNOC'')
        = Inr nocs'"
    and v: "v = JObj [(''MedalTableInfo'', info'), (''MedalTableNOC'', nocs')]"
    by (auto simp: useMedals_def z_parse_def medalTableSchema_def z_object_def split: sum.splits)
  from z_array_Inr [OF a] i v show ?thesis
    by auto
qed

text \<open>
  Claim C8. Validation does not coerce and accepts all or nothing. A string in a field
  that the schema declares with \<open>z.number()\<close>, in the info object or in any element of the
  country array, makes the validation of the whole payload fail. So does a payload that
  is not an object, an info object that fails its schema, and any single element of the
  country array that fails its schema. Where validation succeeds, the info object and
  every element of the array have passed their schemas, and the result holds the parsed
  info object and the parsed elements, all of them and in order.
\<close>

theorem validation_all_or_nothing:
  "(\<forall>body info k s.
      map_of body ''MedalTableInfo'' = Some (JObj info) \<and>
      (k, z_number) \<in> set medalTableInfoShape \<and> map_of info k = Some (JStr s)
      \<longrightarrow> isl (useMedals (JObj body))) \<and>
   (\<forall>body es i e k s.
      map_of body ''MedalTableNOC'' = Some (JArr es) \<and> i < length es \<and> es ! i = JObj e \<and>
      (k, z_number) \<in> set medalTableNOCShape \<and> map_of e k = Some (JStr s)
      \<longrightarrow> isl (useMedals (JObj body))) \<and>
   (\<forall>raw. (\<forall>body. raw \<noteq> JObj body) \<longrightarrow> isl (useMedals raw)) \<and>
   (\<forall>body.
      isl (medalTableInfoSchema [Key ''MedalTableInfo''] (map_of body ''MedalTableInfo''))
      \<longrightarrow> isl (useMedals (JObj body))) \<and>
   (\<forall>body es i.
      map_of body ''MedalTableNOC'' = Some (JArr es) \<and> i < length es \<and>
      isl (medalTableNOCSchema [Key ''MedalTableNOC'', Idx i] (Some (es ! i)))
      \<longrightarrow> isl (useMedals (JObj body))) \<and>
   (\<forall>body v.
      useMedals (JObj body) = Inr v \<longrightarrow>
      (\<exists>info' es es'.
         map_of body ''MedalTableNOC'' = Some (JArr es) \<and>
         medalTableInfoSchema [Key ''MedalTableInfo''] (map_of body ''MedalTableInfo'') = Inr info' \<and>
         length es' = length es \<and>
         (\<forall>i < length es.
            medalTableNOCSchema [Key ''MedalTableNOC'', Idx i] (Some (es ! i)) = Inr (es' ! i)) \<and>
         v = JObj [(''MedalTableInfo'', info'), (''MedalTableNOC'', JArr es')]))"
proof (intro conjI allI impI)
  fix body info k s
  assume "map_of body ''MedalTableInfo'' = Some (JObj info) \<and>
      (k, z_number) \<in> set medalTableInfoShape \<and> map_of info k = Some (JStr s)"
  then show "isl (useMedals (JObj body))"
    using useMedals_info_string by blast
next
  fix body es i e k s
  assume "map_of body ''MedalTableNOC'' = Some (JArr es) \<and> i < length es \<and> es ! i = JObj e \<and>
      (k, z_number) \<in> set medalTableNOCShape \<and> map_of e k = Some (JStr s)"
  then show "isl (useMedals (JObj body))"
    using useMedals_element_string by blast
next
  fix raw
  assume "\<forall>body. raw \<noteq> JObj body"
  then show "isl (useMedals raw)"
    by (intro useMedals_not_object) simp
next
  fix body
  assume "isl (medalTableInfoSchema [Key ''MedalTableInfo''] (map_of body ''MedalTableInfo''))"
  then show "isl (useMedals (JObj body))"
    by (rule useMedals_info)
next
  fix body es i
  assume "map_of body ''MedalTableNOC'' = Some (JArr es) \<and> i < length es \<and>
      isl (medalTableNOCSchema [Key ''MedalTableNOC'', Idx i] (Some (es ! i)))"
  then show "isl (useMedals (JObj body))"
    using useMedals_element by blast
next
  fix body v
  assume "useMedals (JObj body) = Inr v"
  then show "\<exists>info' es es'.
         map_of body ''MedalTableNOC'' = Some (JArr es) \<and>
         medalTableInfoSchema [Key ''MedalTableInfo''] (map_of body ''MedalTableInfo'') = Inr info' \<and>
         length es' = length es \<and>
         (\<forall>i < length es.
            medalTableNOCSchema [Key ''MedalTableNOC'', Idx i] (Some (es ! i)) = Inr (es' ! i)) \<and>
         v = JObj [(''MedalTableInfo'', info'), (''MedalTableNOC'', JArr es')]"
    by (rule useMedals_Inr)
qed

lemma example_parse:
  "medalTableInfoSchema p (Some info_raw) = Inr info_raw"
  "medalTableNOCSchema p (Some (JObj ((''extra'', JBool True) # noc_props (JNum (Fin 1)))))
     = Inr (JObj (noc_props (JNum (Fin 1))))"
  "medalTableNOCSchema p (Some (JObj (noc_props (JNum (Fin 1)))))
     = Inr (JObj (noc_props (JNum (Fin 1))))"
  "medalTableNOCSchema p (Some (JObj (noc_props (JStr ''1''))))
     = Inl [(p @ [Key ''n_Gold''], ''number'')]"
  by (simp_all add: medalTableInfoSchema_def medalTableInfoShape_def medalTableNOCSchema_def
      medalTableNOCShape_def z_object_def z_number_def z_string_def z_nullable_def info_raw_def
      noc_props_def)

lemma example_useMedals:
  "useMedals (JObj [(''MedalTableInfo'', info_raw),
      (''MedalTableNOC'', JArr [JObj ((''extra'', JBool True) # noc_props (JNum (Fin 1)))])])
   = Inr (JObj [(''MedalTableInfo'', info_raw),
      (''MedalTableNOC'', JArr [JObj (noc_props (JNum (Fin 1)))])])"
  "useMedals (JObj [(''MedalTableInfo'', info_raw),
      (''MedalTableNOC'', JArr [JObj (noc_props (JNum (Fin 1))), JObj (noc_props (JStr ''1''))])])
   = Inl [([Key ''MedalTableNOC'', Idx 1, Key ''n_Gold''], ''number'')]"
  by (simp_all add: useMedals_def z_parse_def medalTableSchema_def z_object_def z_array_def
      example_parse)

theorem validation_all_or_nothing_witness:
  "map_of [(''MedalTableInfo'', info_raw),
      (''MedalTableNOC'', JArr [JObj (noc_props (JNum (Fin 1))), JObj (noc_props (JStr ''1''))])]
     ''MedalTableNOC''
     = Some (JArr [JObj (noc_props (JNum (Fin 1))), JObj (noc_props (JStr ''1''))]) \<and>
   1 < length [JObj (noc_props (JNum (Fin 1))), JObj (noc_props (JStr ''1''))] \<and>
   [JObj (noc_props (JNum (Fin 1))), JObj (noc_props (JStr ''1''))] ! 1
     = JObj (noc_props (JStr ''1'')) \<and>
   (''n_Gold'', z_number) \<in> set medalTableNOCShape \<and>
   map_of (noc_props (JStr ''1'')) ''n_Gold'' = Some (JStr ''1'') \<and>
   isl (useMedals (JObj [(''MedalTableInfo'', info_raw),
      (''MedalTableNOC'', JArr [JObj (noc_props (JNum (Fin 1))), JObj (noc_props (JStr ''1''))])]))"
proof -
  let ?es = "[JObj (noc_props (JNum (Fin 1))), JObj (noc_props (JStr ''1''))]"
  let ?body = "[(''MedalTableInfo'', info_raw), (''MedalTableNOC'', JArr ?es)]"
  have h: "map_of ?body ''MedalTableNOC'' = Some (JArr ?es) \<and> 1 < length ?es \<and>
      ?es ! 1 = JObj (noc_props (JStr ''1'')) \<and>
      (''n_Gold'', z_number) \<in> set medalTableNOCShape \<and>
      map_of (noc_props (JStr ''1'')) ''n_Gold'' = Some (JStr ''1'')"
    by (simp add: medalTableNOCShape_def noc_props_def)
  have "\<forall>body es i e k s.
      map_of body ''MedalTableNOC'' = Some (JArr es) \<and> i < length es \<and> es ! i = JObj e \<and>
      (k, z_number) \<in> set medalTableNOCShape \<and> map_of e k = Some (JStr s)
      \<longrightarrow> isl (useMedals (JObj body))"
    using validation_all_or_nothing by blast
  with h have "isl (useMedals (JObj ?body))" by blast
  with h show ?thesis by blast
qed

end
